theory Spec2Isabelle
  imports Main "HOL-Library.Sublist"
begin

section \<open>The squid queue model (squid/slurm.py, squid/app.py)\<close>

text \<open>
  A shallow embedding of \<^verbatim>\<open>squid/slurm.py\<close> and of the state that
  \<^verbatim>\<open>SquidApp.__init__\<close> sets up in \<^verbatim>\<open>squid/app.py\<close>.

  A Python \<^verbatim>\<open>str\<close> is a sequence of code points. The model is a \<open>string\<close>, whose
  characters are the code points below 256; \<open>isspace\<close> and \<open>isdigit_char\<close> below list what
  Python's \<^verbatim>\<open>str.isspace\<close> and \<^verbatim>\<open>str.isdigit\<close> accept in that range.

  Python exceptions are values of the type \<open>error\<close>; a call that can raise returns
  \<open>error + 'a\<close>, with \<open>Inl\<close> for the exception.
\<close>

subsection \<open>Exceptions\<close>

text \<open>
  \<^verbatim>\<open>SlurmQueueReadError\<close> is imported from \<^verbatim>\<open>squid/_errors.py\<close>; it carries the message
  it is raised with. The other constructors are the exceptions the Python library calls
  used in \<^verbatim>\<open>slurm.py\<close> raise; \<^verbatim>\<open>bdb.BdbQuit\<close> is the one that leaves the debugger when its
  session is quit or its input is at the end of the file.
\<close>

datatype error =
    SlurmQueueReadError string
  | AttributeError
  | TypeError
  | re_error
  | OSError
  | CalledProcessError
  | UnicodeDecodeError
  | BdbQuit

subsection \<open>SlurmJob (slurm.py, lines 26 to 40)\<close>

record SlurmJob =
  job_id :: string
  name :: string
  partition :: string
  time_used :: string
  submit_time :: string
  start_time :: string
  end_time :: string
  state :: string
  array_job_id :: string
  array_task_id :: string
  node_list :: string

text \<open>
  \<^verbatim>\<open>SlurmJob(*job_info)\<close>: the generated \<^verbatim>\<open>__init__\<close> takes exactly the eleven fields,
  positionally and in the order of their declaration; any other number of arguments is a
  \<^verbatim>\<open>TypeError\<close>.
\<close>

fun SlurmJob_new :: "string list \<Rightarrow> error + SlurmJob" where
  "SlurmJob_new [a0, a1, a2, a3, a4, a5, a6, a7, a8, a9, a10] =
     Inr \<lparr>job_id = a0, name = a1, partition = a2, time_used = a3, submit_time = a4,
          start_time = a5, end_time = a6, state = a7, array_job_id = a8,
          array_task_id = a9, node_list = a10\<rparr>"
| "SlurmJob_new _ = Inl TypeError"

text \<open>The mapping between display names and attribute names (slurm.py, lines 11 to 23).\<close>

definition NAMES_TO_JOB_ATTRIBUTES :: "(string \<times> string) list" where
  "NAMES_TO_JOB_ATTRIBUTES =
     [(''Name'', ''name''),
      (''Partition'', ''partition''),
      (''State'', ''state''),
      (''Time'', ''time_used''),
      (''Node/Reason'', ''node_list''),
      (''Submit Time'', ''submit_time''),
      (''Start Time'', ''start_time''),
      (''Job ID'', ''job_id''),
      (''Max End Time'', ''end_time''),
      (''Array Job Id'', ''array_job_id''),
      (''Array Task Id'', ''array_task_id'')]"

subsection \<open>Python string operations\<close>

text \<open>\<^verbatim>\<open>str.isspace\<close> on one character, for the code points below 256.\<close>

definition isspace :: "char \<Rightarrow> bool" where
  "isspace c \<longleftrightarrow>
     c \<in> set [CHR 0x09, CHR 0x0A, CHR 0x0B, CHR 0x0C, CHR 0x0D, CHR 0x1C, CHR 0x1D,
              CHR 0x1E, CHR 0x1F, CHR 0x20, CHR 0x85, CHR 0xA0]"

text \<open>
  \<^verbatim>\<open>line.split()\<close>: the maximal runs of characters that are not whitespace, in order.
  \<open>cur\<close> is the token being read.
\<close>

fun split_aux :: "string \<Rightarrow> string \<Rightarrow> string list" where
  "split_aux [] cur = (if cur = [] then [] else [cur])"
| "split_aux (c # cs) cur =
     (if isspace c then (if cur = [] then split_aux cs [] else cur # split_aux cs [])
      else split_aux cs (cur @ [c]))"

definition split :: "string \<Rightarrow> string list" where
  "split line = split_aux line []"

text \<open>\<^verbatim>\<open>queue_info.split("\n")\<close>: the pieces between the line feeds, empty ones included.\<close>

fun split_sep_aux :: "char \<Rightarrow> string \<Rightarrow> string \<Rightarrow> string list" where
  "split_sep_aux sep [] cur = [cur]"
| "split_sep_aux sep (c # cs) cur =
     (if c = sep then cur # split_sep_aux sep cs [] else split_sep_aux sep cs (cur @ [c]))"

definition split_lines :: "string \<Rightarrow> string list" where
  "split_lines queue_info = split_sep_aux (CHR 0x0A) queue_info []"

text \<open>
  \<^verbatim>\<open>str.isdigit\<close>: true when the string is not empty and every character is a digit.
  Below 256 the digits of \<^verbatim>\<open>str.isdigit\<close> are 0 to 9 and the superscripts U+00B2, U+00B3
  and U+00B9.
\<close>

definition isdigit_char :: "char \<Rightarrow> bool" where
  "isdigit_char c \<longleftrightarrow> c \<in> set (''0123456789'' @ [CHR 0xB2, CHR 0xB3, CHR 0xB9])"

definition isdigit :: "string \<Rightarrow> bool" where
  "isdigit s \<longleftrightarrow> s \<noteq> [] \<and> list_all isdigit_char s"

subsection \<open>The environment\<close>

text \<open>
  What \<^verbatim>\<open>slurm.py\<close> calls outside the repository, as parameters of the model:
  \<^item> \<open>os_getlogin\<close>: the result of \<^verbatim>\<open>os.getlogin()\<close>;
  \<^item> \<open>check_output\<close>: \<^verbatim>\<open>subprocess.check_output(argv).decode("utf-8")\<close>, the decoded
    standard output of the command, or the exception of a failed start, of a non-zero
    exit status or of the decoding;
  \<^item> \<open>subprocess_run\<close>: \<^verbatim>\<open>subprocess.run(argv)\<close>, \<open>None\<close> when the call returns (whatever
    the exit status), the exception otherwise;
  \<^item> \<open>re_search\<close>: \<^verbatim>\<open>re.search(regex, attr)\<close>; \<open>re_search env regex\<close> is \<open>None\<close> when the
    pattern does not compile (\<^verbatim>\<open>re.error\<close>), and otherwise the test whether the pattern
    has a match somewhere in the string;
  \<^item> \<open>breakpoint\<close>: \<^verbatim>\<open>breakpoint()\<close> at line 90, which calls the debugger hook: \<open>None\<close> when
    control comes back to the program (the hook is switched off, or the session is
    continued), so that line 91 runs, and otherwise the exception that ends the call in the
    debugger (\<open>BdbQuit\<close> under the default hook);
  \<^item> \<open>object_attr\<close>: the attributes that every \<^verbatim>\<open>SlurmJob\<close> object has besides its eleven
    fields (those of the dataclass machinery and of \<^verbatim>\<open>object\<close>, such as
    \<^verbatim>\<open>__doc__\<close> or \<^verbatim>\<open>__str__\<close>), with their values.
\<close>

datatype pyval = PyStr string | PyOther bool

text \<open>
  A value read by \<^verbatim>\<open>getattr\<close>: a string, or another object, of which the model keeps
  the truth value only.
\<close>

fun truthy :: "pyval \<Rightarrow> bool" where
  "truthy (PyStr s) = (s \<noteq> [])"
| "truthy (PyOther b) = b"

record environment =
  os_getlogin :: "error + string"
  check_output :: "string list \<Rightarrow> error + string"
  subprocess_run :: "string list \<Rightarrow> error option"
  re_search :: "string \<Rightarrow> (string \<Rightarrow> bool) option"
  breakpoint :: "error option"
  object_attr :: "string \<Rightarrow> pyval option"

subsection \<open>SlurmQueue (slurm.py, lines 52 to 134)\<close>

record SlurmQueue =
  jobs :: "SlurmJob list"

text \<open>The instance dictionary of a \<^verbatim>\<open>SlurmJob\<close>: its eleven fields.\<close>

definition field_value :: "string \<Rightarrow> SlurmJob \<Rightarrow> string option" where
  "field_value attribute job =
     (if attribute = ''job_id'' then Some (job_id job)
      else if attribute = ''name'' then Some (name job)
      else if attribute = ''partition'' then Some (partition job)
      else if attribute = ''time_used'' then Some (time_used job)
      else if attribute = ''submit_time'' then Some (submit_time job)
      else if attribute = ''start_time'' then Some (start_time job)
      else if attribute = ''end_time'' then Some (end_time job)
      else if attribute = ''state'' then Some (state job)
      else if attribute = ''array_job_id'' then Some (array_job_id job)
      else if attribute = ''array_task_id'' then Some (array_task_id job)
      else if attribute = ''node_list'' then Some (node_list job)
      else None)"

text \<open>
  \<^verbatim>\<open>getattr(job, attribute)\<close>: a field, else an attribute every object of the class has,
  else \<^verbatim>\<open>AttributeError\<close>.
\<close>

definition getattr :: "environment \<Rightarrow> SlurmJob \<Rightarrow> string \<Rightarrow> error + pyval" where
  "getattr env job attribute =
     (case field_value attribute job of
        Some v \<Rightarrow> Inr (PyStr v)
      | None \<Rightarrow>
          (case object_attr env attribute of
             Some v \<Rightarrow> Inr v
           | None \<Rightarrow> Inl AttributeError))"

text \<open>
  The loop of \<^verbatim>\<open>filter_jobs\<close> (lines 106 to 110); \<open>filtered_jobs\<close> is the list built so
  far. \<^verbatim>\<open>re.search\<close> is reached only when \<^verbatim>\<open>attr\<close> is true; it compiles the pattern
  first and then raises \<^verbatim>\<open>TypeError\<close> on a value that is not a string.
\<close>

fun filter_loop ::
  "environment \<Rightarrow> SlurmJob list \<Rightarrow> string \<Rightarrow> string \<Rightarrow> SlurmJob list \<Rightarrow> error + SlurmJob list"
where
  "filter_loop env [] attribute regex filtered_jobs = Inr filtered_jobs"
| "filter_loop env (job # rest) attribute regex filtered_jobs =
     (case getattr env job attribute of
        Inl e \<Rightarrow> Inl e
      | Inr attr \<Rightarrow>
          if truthy attr then
            (case re_search env regex of
               None \<Rightarrow> Inl re_error
             | Some search \<Rightarrow>
                 (case attr of
                    PyOther _ \<Rightarrow> Inl TypeError
                  | PyStr s \<Rightarrow>
                      if search s
                      then filter_loop env rest attribute regex (filtered_jobs @ [job])
                      else filter_loop env rest attribute regex filtered_jobs))
          else filter_loop env rest attribute regex filtered_jobs)"

definition filter_jobs ::
  "environment \<Rightarrow> SlurmJob list \<Rightarrow> string \<Rightarrow> string \<Rightarrow> error + SlurmJob list"
where
  "filter_jobs env js attribute regex =
     (if attribute = [] \<or> regex = [] then Inr js
      else filter_loop env js attribute regex [])"

text \<open>The message of the error raised at lines 91 to 93.\<close>

definition read_error_message :: string where
  "read_error_message =
     ''Error reading slurm queue. Please check your for any irregularities in squeue output.''"

text \<open>\<^verbatim>\<open>xs.pop(i)\<close> for an index within the list: the list without its element at \<open>i\<close>.\<close>

definition pop :: "nat \<Rightarrow> 'a list \<Rightarrow> 'a list" where
  "pop i xs = take i xs @ drop (Suc i) xs"

text \<open>
  The body of the loop over the lines (lines 79 to 94), for a line that is not empty: the
  record to append, or the exception. When the number of tokens is wrong, line 90 calls
  \<^verbatim>\<open>breakpoint()\<close> first: the call ends with the exception of the debugger if there is
  one, and with the \<^verbatim>\<open>SlurmQueueReadError\<close> of line 91 otherwise.
\<close>

definition parse_line :: "environment \<Rightarrow> string \<Rightarrow> error + SlurmJob" where
  "parse_line env line =
     (let job_info = split line;
          job_info = (if length job_info = 12 then pop 11 job_info else job_info);
          job_info = (if length job_info > 12 then take 10 job_info @ [''Nodes N. Avail.'']
                      else job_info)
      in if length job_info \<noteq> 11 then
           (case breakpoint env of
              Some e \<Rightarrow> Inl e
            | None \<Rightarrow> Inl (SlurmQueueReadError read_error_message))
         else SlurmJob_new job_info)"

text \<open>
  The loop over the lines (lines 77 to 94). Each record is appended to \<^verbatim>\<open>self.jobs\<close> as
  soon as its line is read, so an exception leaves the records of the earlier lines there.
\<close>

fun parse_lines :: "environment \<Rightarrow> string list \<Rightarrow> SlurmQueue \<Rightarrow> (error + unit) \<times> SlurmQueue" where
  "parse_lines env [] self = (Inr (), self)"
| "parse_lines env (line # rest) self =
     (if line \<noteq> [] then
        (case parse_line env line of
           Inl e \<Rightarrow> (Inl e, self)
         | Inr job \<Rightarrow> parse_lines env rest (self\<lparr>jobs := jobs self @ [job]\<rparr>))
      else parse_lines env rest self)"

text \<open>The command line of the queue query (lines 64 to 74).\<close>

definition squeue_command :: "string \<Rightarrow> string list" where
  "squeue_command login =
     [''squeue'', ''-u'', login, ''--noheader'', ''--array'', ''--Format'',
      ''JobID:1000,Name:1000,Partition:1000,TimeUsed:1000,SubmitTime:1000,StartTime:1000,EndTime:1000,State:1000,ArrayJobID:1000,ArrayTaskID:1000,NodeList:1000,Reason:1000'']"

text \<open>
  \<^verbatim>\<open>SlurmQueue.update\<close> (lines 59 to 97). The result is the exception or the normal
  return, the queue object after the call, and the external commands the call has started.
  \<^verbatim>\<open>os.getlogin()\<close> is evaluated while the argument list is built, so when it raises no
  command is started.
\<close>

definition update ::
  "environment \<Rightarrow> SlurmQueue \<Rightarrow> string \<Rightarrow> string \<Rightarrow> (error + unit) \<times> SlurmQueue \<times> string list list"
where
  "update env self job_filter_attribute job_filter_regex =
     (let self = self\<lparr>jobs := []\<rparr> in
      case os_getlogin env of
        Inl e \<Rightarrow> (Inl e, self, [])
      | Inr login \<Rightarrow>
          (case check_output env (squeue_command login) of
             Inl e \<Rightarrow> (Inl e, self, [squeue_command login])
           | Inr queue_info \<Rightarrow>
               (case parse_lines env (split_lines queue_info) self of
                  (Inl e, self) \<Rightarrow> (Inl e, self, [squeue_command login])
                | (Inr _, self) \<Rightarrow>
                    (case filter_jobs env (jobs self) job_filter_attribute job_filter_regex of
                       Inl e \<Rightarrow> (Inl e, self, [squeue_command login])
                     | Inr js \<Rightarrow> (Inr (), self\<lparr>jobs := js\<rparr>, [squeue_command login])))))"

text \<open>
  \<^verbatim>\<open>SlurmQueue.__init__\<close> (lines 55 to 57): the new object, unless \<^verbatim>\<open>update\<close> raises.
\<close>

definition SlurmQueue_init :: "environment \<Rightarrow> (error + SlurmQueue) \<times> string list list" where
  "SlurmQueue_init env =
     (case update env \<lparr>jobs = []\<rparr> [] [] of
        (Inl e, self, calls) \<Rightarrow> (Inl e, calls)
      | (Inr _, self, calls) \<Rightarrow> (Inr self, calls))"

text \<open>
  \<^verbatim>\<open>kill_job\<close>, \<^verbatim>\<open>hold_job\<close> and \<^verbatim>\<open>release_job\<close> (lines 113 to 128): the exception, if
  any, and the external commands started.
\<close>

definition kill_job :: "environment \<Rightarrow> SlurmJob \<Rightarrow> error option \<times> string list list" where
  "kill_job env job =
     (if isdigit (job_id job)
      then (subprocess_run env [''scancel'', job_id job], [[''scancel'', job_id job]])
      else (None, []))"

definition hold_job :: "environment \<Rightarrow> SlurmJob \<Rightarrow> error option \<times> string list list" where
  "hold_job env job =
     (if isdigit (job_id job)
      then (subprocess_run env [''scontrol'', ''hold'', job_id job],
            [[''scontrol'', ''hold'', job_id job]])
      else (None, []))"

definition release_job :: "environment \<Rightarrow> SlurmJob \<Rightarrow> error option \<times> string list list" where
  "release_job env job =
     (if isdigit (job_id job)
      then (subprocess_run env [''scontrol'', ''release'', job_id job],
            [[''scontrol'', ''release'', job_id job]])
      else (None, []))"

subsection \<open>SquidApp (app.py)\<close>

text \<open>The banner row (app.py, lines 14 to 26).\<close>

definition slurm_banner_fake_job :: SlurmJob where
  "slurm_banner_fake_job =
     \<lparr>job_id = ''Job ID'', name = ''Name'', partition = ''Partition'', time_used = ''Time'',
      submit_time = ''Submit Time'', start_time = ''Start Time'', end_time = ''End Time'',
      state = ''State'', array_job_id = ''Ar.J.Id'', array_task_id = ''Ar.T.Id'',
      node_list = ''Node/Reason''\<rparr>"

text \<open>
  The part of the state of \<^verbatim>\<open>SquidApp\<close> that lines 34 to 36 of \<^verbatim>\<open>__init__\<close> set: the
  queue and the filter. The widgets of \<^verbatim>\<open>py_cui\<close> that the rest of \<^verbatim>\<open>__init__\<close>
  creates are outside the model.
\<close>

record SquidApp =
  slurm_queue :: SlurmQueue
  job_filter_attribute :: string
  job_filter_regex :: string

definition SquidApp_init :: "environment \<Rightarrow> (error + SquidApp) \<times> string list list" where
  "SquidApp_init env =
     (case SlurmQueue_init env of
        (Inl e, calls) \<Rightarrow> (Inl e, calls)
      | (Inr queue, calls) \<Rightarrow>
          (Inr \<lparr>slurm_queue = queue, job_filter_attribute = ''name'', job_filter_regex = ''''\<rparr>,
           calls))"

subsection \<open>Notions used in the statements\<close>

text \<open>
  A positive-integer string: decimal digits 0 to 9 only, at least one of them, and not all
  of them zero.
\<close>

definition positive_integer_string :: "string \<Rightarrow> bool" where
  "positive_integer_string s \<longleftrightarrow>
     s \<noteq> [] \<and> list_all (\<lambda>c. c \<in> set ''0123456789'') s \<and> list_ex (\<lambda>c. c \<noteq> CHR ''0'') s"

text \<open>
  The records of the lines up to the first line that \<open>parse_line\<close> rejects (of all the
  lines when there is none), empty lines skipped.
\<close>

fun records_before_failure :: "environment \<Rightarrow> string list \<Rightarrow> SlurmJob list" where
  "records_before_failure env [] = []"
| "records_before_failure env (line # rest) =
     (if line = [] then records_before_failure env rest
      else (case parse_line env line of
              Inl e \<Rightarrow> []
            | Inr job \<Rightarrow> job # records_before_failure env rest))"

subsection \<open>Example environments\<close>

text \<open>
  A regular expression engine that knows the patterns made of lower-case letters only, for
  which \<^verbatim>\<open>re.search\<close> is the search for a substring.
\<close>

definition literal_search :: "string \<Rightarrow> (string \<Rightarrow> bool) option" where
  "literal_search regex =
     (if list_all (\<lambda>c. c \<in> set ''abcdefghijklmnopqrstuvwxyz'') regex
      then Some (sublist regex) else None)"

definition example_job :: SlurmJob where
  "example_job =
     \<lparr>job_id = ''123'', name = ''job1'', partition = ''part'', time_used = ''1:00'',
      submit_time = ''01-01'', start_time = ''01-02'', end_time = ''01-03'',
      state = ''PD'', array_job_id = ''123'', array_task_id = ''0'', node_list = ''node1''\<rparr>"

text \<open>Two outputs of \<^verbatim>\<open>squeue\<close>: one job, and one job followed by a line of two columns.\<close>

definition example_queue_info :: string where
  "example_queue_info =
     ''123 job1 part 1:00 01-01 01-02 01-03 PD 123 0 node1'' @ [CHR 0x0A]"

definition truncated_queue_info :: string where
  "truncated_queue_info =
     ''123 job1 part 1:00 01-01 01-02 01-03 PD 123 0 node1'' @ [CHR 0x0A] @ ''124 job2''"

text \<open>
  A machine where \<^verbatim>\<open>squeue\<close> prints one job, every command runs, and a \<^verbatim>\<open>SlurmJob\<close>
  object has three attributes besides its fields.
\<close>

definition example_env :: environment where
  "example_env =
     \<lparr>os_getlogin = Inr ''alice'',
      check_output = (\<lambda>argv. Inr example_queue_info),
      subprocess_run = (\<lambda>argv. None),
      re_search = literal_search,
      breakpoint = None,
      object_attr = (\<lambda>attribute.
        if attribute = ''__doc__'' then Some (PyStr ''Dataclass to hold information about a slurm job.'')
        else if attribute = ''__hash__'' then Some (PyOther False)
        else if attribute = ''__dict__'' then Some (PyOther True)
        else None)\<rparr>"

text \<open>The same machine when \<^verbatim>\<open>squeue\<close> exits with a non-zero status.\<close>

definition failing_env :: environment where
  "failing_env = example_env\<lparr>check_output := (\<lambda>argv. Inl CalledProcessError)\<rparr>"

text \<open>The same machine when the second line of the output of \<^verbatim>\<open>squeue\<close> has two columns.\<close>

definition truncated_env :: environment where
  "truncated_env = example_env\<lparr>check_output := (\<lambda>argv. Inr truncated_queue_info)\<rparr>"

text \<open>The same once more, when the debugger that line 90 starts is quit.\<close>

definition quitting_env :: environment where
  "quitting_env = truncated_env\<lparr>breakpoint := Some BdbQuit\<rparr>"

section \<open>Properties\<close>

subsection \<open>Helper lemmas\<close>

lemma list_eleven:
  "length xs = 11 \<Longrightarrow>
   xs = [xs ! 0, xs ! 1, xs ! 2, xs ! 3, xs ! 4, xs ! 5, xs ! 6, xs ! 7, xs ! 8, xs ! 9, xs ! 10]"
  by (auto simp: numeral_eq_Suc length_Suc_conv)

lemma SlurmJob_new_eleven:
  assumes "length xs = 11"
  shows "SlurmJob_new xs =
     Inr \<lparr>job_id = xs ! 0, name = xs ! 1, partition = xs ! 2, time_used = xs ! 3,
          submit_time = xs ! 4, start_time = xs ! 5, end_time = xs ! 6, state = xs ! 7,
          array_job_id = xs ! 8, array_task_id = xs ! 9, node_list = xs ! 10\<rparr>"
proof -
  have "SlurmJob_new
          [xs ! 0, xs ! 1, xs ! 2, xs ! 3, xs ! 4, xs ! 5, xs ! 6, xs ! 7, xs ! 8, xs ! 9, xs ! 10] =
     Inr \<lparr>job_id = xs ! 0, name = xs ! 1, partition = xs ! 2, time_used = xs ! 3,
          submit_time = xs ! 4, start_time = xs ! 5, end_time = xs ! 6, state = xs ! 7,
          array_job_id = xs ! 8, array_task_id = xs ! 9, node_list = xs ! 10\<rparr>"
    by simp
  with list_eleven [OF assms] show ?thesis by simp
qed

lemma parse_line_short:
  "length (split line) < 11 \<Longrightarrow>
   parse_line env line =
     Inl (case breakpoint env of
            Some e \<Rightarrow> e
          | None \<Rightarrow> SlurmQueueReadError read_error_message)"
  by (simp add: parse_line_def Let_def split: option.splits)

lemma parse_line_not_short:
  assumes "11 \<le> length (split line)"
  shows "\<exists>job. parse_line env line = Inr job"
proof -
  consider "length (split line) = 11" | "length (split line) = 12" | "12 < length (split line)"
    using assms by linarith
  then show ?thesis
  proof cases
    case 1
    then show ?thesis by (simp add: parse_line_def Let_def SlurmJob_new_eleven)
  next
    case 2
    then have "length (pop 11 (split line)) = 11" by (simp add: pop_def)
    with 2 show ?thesis by (simp add: parse_line_def Let_def SlurmJob_new_eleven)
  next
    case 3
    then have "length (take 10 (split line) @ [''Nodes N. Avail.'']) = 11" by simp
    with 3 show ?thesis by (simp add: parse_line_def Let_def SlurmJob_new_eleven)
  qed
qed

lemma parse_line_error:
  "parse_line env line = Inl e \<Longrightarrow>
   e = (case breakpoint env of
          Some e \<Rightarrow> e
        | None \<Rightarrow> SlurmQueueReadError read_error_message) \<and>
   length (split line) < 11"
  using parse_line_short [of line env] parse_line_not_short [of line env]
  by (cases "length (split line) < 11") auto

lemma parse_lines_state:
  "snd (parse_lines env lines self) = self\<lparr>jobs := jobs self @ records_before_failure env lines\<rparr>"
  by (induction lines arbitrary: self) (auto split: sum.splits)

lemma parse_lines_short_line:
  "line \<in> set lines \<Longrightarrow> line \<noteq> [] \<Longrightarrow> length (split line) < 11 \<Longrightarrow>
   fst (parse_lines env lines self) =
     Inl (case breakpoint env of
            Some e \<Rightarrow> e
          | None \<Rightarrow> SlurmQueueReadError read_error_message)"
proof (induction lines arbitrary: self)
  case Nil
  then show ?case by simp
next
  case (Cons l rest)
  show ?case
  proof (cases "l = []")
    case True
    with Cons show ?thesis by auto
  next
    case False
    show ?thesis
    proof (cases "parse_line env l")
      case (Inl e)
      with False parse_line_error [OF Inl] show ?thesis by simp
    next
      case (Inr job)
      with Cons.prems parse_line_short [of l env] have "line \<in> set rest" by auto
      with Cons.IH Cons.prems(2,3) False Inr show ?thesis by simp
    qed
  qed
qed

lemma parse_lines_all_long:
  "\<forall>line\<in>set lines. line \<noteq> [] \<longrightarrow> 11 \<le> length (split line) \<Longrightarrow>
   fst (parse_lines env lines self) = Inr ()"
proof (induction lines arbitrary: self)
  case Nil
  then show ?case by simp
next
  case (Cons l rest)
  show ?case
  proof (cases "l = []")
    case True
    with Cons show ?thesis by simp
  next
    case False
    with Cons.prems have "11 \<le> length (split l)" by simp
    from parse_line_not_short [OF this] obtain job where "parse_line env l = Inr job" ..
    with Cons False show ?thesis by simp
  qed
qed

lemma update_query_ok:
  assumes "os_getlogin env = Inr login"
    and "check_output env (squeue_command login) = Inr queue_info"
  shows "update env self a r =
     (case parse_lines env (split_lines queue_info) (self\<lparr>jobs := []\<rparr>) of
        (Inl e, self') \<Rightarrow> (Inl e, self', [squeue_command login])
      | (Inr _, self') \<Rightarrow>
          (case filter_jobs env (jobs self') a r of
             Inl e \<Rightarrow> (Inl e, self', [squeue_command login])
           | Inr js \<Rightarrow> (Inr (), self'\<lparr>jobs := js\<rparr>, [squeue_command login])))"
  using assms by (simp add: update_def Let_def)

lemma field_value_known:
  "attribute \<in> set (map snd NAMES_TO_JOB_ATTRIBUTES) \<longleftrightarrow> field_value attribute job \<noteq> None"
  by (auto simp: NAMES_TO_JOB_ATTRIBUTES_def field_value_def)

lemma filter_loop_known:
  assumes "attribute \<in> set (map snd NAMES_TO_JOB_ATTRIBUTES)"
    and "re_search env regex = Some search"
  shows "filter_loop env js attribute regex filtered_jobs =
     Inr (filtered_jobs @
          filter (\<lambda>job. case field_value attribute job of
                          Some v \<Rightarrow> v \<noteq> [] \<and> search v
                        | None \<Rightarrow> False) js)"
proof (induction js arbitrary: filtered_jobs)
  case Nil
  then show ?case by simp
next
  case (Cons job rest)
  from assms(1) obtain v where v: "field_value attribute job = Some v"
    using field_value_known [of attribute job] by auto
  show ?case
    using Cons [of "filtered_jobs @ [job]"] Cons [of filtered_jobs] v assms(2)
    by (simp add: getattr_def)
qed

lemma ascii_digit_isdigit_char: "c \<in> set ''0123456789'' \<Longrightarrow> isdigit_char c"
  unfolding isdigit_char_def by (simp only: set_append UnI1)

lemma positive_integer_string_isdigit:
  assumes "positive_integer_string s"
  shows "isdigit s"
proof -
  from assms have "s \<noteq> []" and "\<forall>c\<in>set s. c \<in> set ''0123456789''"
    unfolding positive_integer_string_def list_all_iff by blast+
  then show ?thesis
    unfolding isdigit_def list_all_iff using ascii_digit_isdigit_char by blast
qed

lemma banner_not_isdigit: "\<not> isdigit (job_id slurm_banner_fake_job)"
  by (simp add: slurm_banner_fake_job_def isdigit_def isdigit_char_def)

subsection \<open>The example environments, evaluated\<close>

lemma example_output_lines:
  "split_lines example_queue_info =
     [''123 job1 part 1:00 01-01 01-02 01-03 PD 123 0 node1'', []]"
  by (simp add: split_lines_def example_queue_info_def truncated_queue_info_def)

lemma truncated_output_lines:
  "split_lines truncated_queue_info =
     [''123 job1 part 1:00 01-01 01-02 01-03 PD 123 0 node1'', ''124 job2'']"
  by (simp add: split_lines_def example_queue_info_def truncated_queue_info_def)

lemma example_line_parsed:
  "parse_line env ''123 job1 part 1:00 01-01 01-02 01-03 PD 123 0 node1'' = Inr example_job"
  by (simp add: parse_line_def split_def isspace_def example_job_def)

lemma short_line_rejected:
  "parse_line env ''124 job2'' =
     Inl (case breakpoint env of
            Some e \<Rightarrow> e
          | None \<Rightarrow> SlurmQueueReadError read_error_message)"
  by (rule parse_line_short) (simp add: split_def isspace_def)

lemma update_truncated_env:
  "update truncated_env \<lparr>jobs = js\<rparr> [] [] =
     (Inl (SlurmQueueReadError read_error_message), \<lparr>jobs = [example_job]\<rparr>,
      [squeue_command ''alice''])"
  by (simp add: update_def truncated_env_def example_env_def truncated_output_lines
      example_line_parsed short_line_rejected)

lemma update_failing_env:
  "update failing_env \<lparr>jobs = js\<rparr> [] [] =
     (Inl CalledProcessError, \<lparr>jobs = []\<rparr>, [squeue_command ''alice''])"
  by (simp add: update_def failing_env_def example_env_def)

subsection \<open>The parser\<close>

text \<open>
  C4. A line that splits into exactly eleven tokens is parsed into the record whose fields
  are those tokens, in the order job_id, name, partition, time_used, submit_time, start_time,
  end_time, state, array_job_id, array_task_id, node_list.
\<close>

theorem parse_line_eleven_tokens:
  assumes "length (split line) = 11"
  shows "parse_line env line =
     Inr \<lparr>job_id = split line ! 0, name = split line ! 1, partition = split line ! 2,
          time_used = split line ! 3, submit_time = split line ! 4,
          start_time = split line ! 5, end_time = split line ! 6, state = split line ! 7,
          array_job_id = split line ! 8, array_task_id = split line ! 9,
          node_list = split line ! 10\<rparr>"
  using assms by (simp add: parse_line_def Let_def SlurmJob_new_eleven)

theorem parse_line_eleven_tokens_witness:
  "length (split ''123 job1 part 1:00 01-01 01-02 01-03 PD 123 0 node1'') = 11 \<and>
   parse_line example_env ''123 job1 part 1:00 01-01 01-02 01-03 PD 123 0 node1'' = Inr example_job"
proof -
  have h: "length (split ''123 job1 part 1:00 01-01 01-02 01-03 PD 123 0 node1'') = 11"
    by (simp add: split_def isspace_def)
  show ?thesis
    using h parse_line_eleven_tokens [OF h]
    by (simp add: split_def isspace_def example_job_def)
qed

text \<open>
  C5. A line that splits into exactly twelve tokens loses its last token, the reason; the
  first eleven tokens become the fields of the record, so node_list is the token at index 10.
\<close>

theorem parse_line_twelve_tokens:
  assumes "length (split line) = 12"
  shows "parse_line env line =
     Inr \<lparr>job_id = split line ! 0, name = split line ! 1, partition = split line ! 2,
          time_used = split line ! 3, submit_time = split line ! 4,
          start_time = split line ! 5, end_time = split line ! 6, state = split line ! 7,
          array_job_id = split line ! 8, array_task_id = split line ! 9,
          node_list = split line ! 10\<rparr>"
proof -
  have "pop 11 (split line) = take 11 (split line)"
    using assms by (simp add: pop_def)
  moreover have "length (take 11 (split line)) = 11"
    using assms by simp
  ultimately show ?thesis
    using assms by (simp add: parse_line_def Let_def SlurmJob_new_eleven)
qed

theorem parse_line_twelve_tokens_witness:
  "length (split ''123 job1 part 1:00 01-01 01-02 01-03 PD 123 0 node1 Resources'') = 12 \<and>
   parse_line example_env ''123 job1 part 1:00 01-01 01-02 01-03 PD 123 0 node1 Resources'' =
     Inr example_job \<and>
   node_list example_job = ''node1''"
proof -
  have h: "length (split ''123 job1 part 1:00 01-01 01-02 01-03 PD 123 0 node1 Resources'') = 12"
    by (simp add: split_def isspace_def)
  show ?thesis
    using h parse_line_twelve_tokens [OF h]
    by (simp add: split_def isspace_def example_job_def)
qed

text \<open>
  C6. A line that splits into more than twelve tokens keeps its first ten tokens, job_id to
  array_task_id, and its node_list is the fixed text "Nodes N. Avail.", whatever the line
  holds after the tenth token.
\<close>

theorem parse_line_long_reason:
  assumes "12 < length (split line)"
  shows "parse_line env line =
     Inr \<lparr>job_id = split line ! 0, name = split line ! 1, partition = split line ! 2,
          time_used = split line ! 3, submit_time = split line ! 4,
          start_time = split line ! 5, end_time = split line ! 6, state = split line ! 7,
          array_job_id = split line ! 8, array_task_id = split line ! 9,
          node_list = ''Nodes N. Avail.''\<rparr>"
proof -
  let ?xs = "take 10 (split line) @ [''Nodes N. Avail.'']"
  have len: "length ?xs = 11"
    using assms by simp
  have "?xs ! 10 = ''Nodes N. Avail.''"
    using assms by (simp add: nth_append)
  moreover have "\<And>i. i < 10 \<Longrightarrow> ?xs ! i = split line ! i"
    using assms by (simp add: nth_append)
  ultimately have "SlurmJob_new ?xs =
     Inr \<lparr>job_id = split line ! 0, name = split line ! 1, partition = split line ! 2,
          time_used = split line ! 3, submit_time = split line ! 4,
          start_time = split line ! 5, end_time = split line ! 6, state = split line ! 7,
          array_job_id = split line ! 8, array_task_id = split line ! 9,
          node_list = ''Nodes N. Avail.''\<rparr>"
    using SlurmJob_new_eleven [OF len] by simp
  then show ?thesis
    using assms by (simp add: parse_line_def Let_def)
qed

theorem parse_line_long_reason_witness:
  "12 < length (split ''123 job1 part 1:00 01-01 01-02 01-03 PD 123 0 Nodes required for job are DOWN'') \<and>
   parse_line example_env ''123 job1 part 1:00 01-01 01-02 01-03 PD 123 0 Nodes required for job are DOWN'' =
     Inr (example_job\<lparr>node_list := ''Nodes N. Avail.''\<rparr>)"
proof -
  have h: "12 < length (split ''123 job1 part 1:00 01-01 01-02 01-03 PD 123 0 Nodes required for job are DOWN'')"
    by (simp add: split_def isspace_def)
  show ?thesis
    using h parse_line_long_reason [OF h]
    by (simp add: split_def isspace_def example_job_def)
qed

text \<open>
  C2, amended. When the queue query succeeds and its output has a line that is not empty and
  splits into fewer than eleven tokens, \<^verbatim>\<open>update\<close> raises and returns nothing. When the
  debugger hook that line 90 calls gives control back, the exception is
  \<^verbatim>\<open>SlurmQueueReadError\<close> with the fixed message \<open>read_error_message\<close>, the same for every
  line; when the hook ends the call, the exception is the one of the hook (\<^verbatim>\<open>bdb.BdbQuit\<close>
  when the debugger is quit).
\<close>

theorem update_short_line_error:
  assumes "os_getlogin env = Inr login"
    and "check_output env (squeue_command login) = Inr queue_info"
    and "line \<in> set (split_lines queue_info)"
    and "line \<noteq> []"
    and "length (split line) < 11"
  shows "fst (update env self attribute regex) =
     Inl (case breakpoint env of
            Some e \<Rightarrow> e
          | None \<Rightarrow> SlurmQueueReadError read_error_message)"
proof -
  obtain res self' where p: "parse_lines env (split_lines queue_info) (self\<lparr>jobs := []\<rparr>) = (res, self')"
    by (cases "parse_lines env (split_lines queue_info) (self\<lparr>jobs := []\<rparr>)")
  from parse_lines_short_line [OF assms(3,4,5), of env "self\<lparr>jobs := []\<rparr>"] p
  have "res = Inl (case breakpoint env of
                     Some e \<Rightarrow> e
                   | None \<Rightarrow> SlurmQueueReadError read_error_message)"
    by simp
  with p show ?thesis
    by (simp add: update_query_ok [OF assms(1,2)])
qed

theorem update_short_line_error_witness:
  "os_getlogin truncated_env = Inr ''alice'' \<and>
   check_output truncated_env (squeue_command ''alice'') = Inr truncated_queue_info \<and>
   os_getlogin quitting_env = Inr ''alice'' \<and>
   check_output quitting_env (squeue_command ''alice'') = Inr truncated_queue_info \<and>
   ''124 job2'' \<in> set (split_lines truncated_queue_info) \<and>
   ''124 job2'' \<noteq> [] \<and>
   length (split ''124 job2'') < 11 \<and>
   breakpoint truncated_env = None \<and>
   fst (update truncated_env \<lparr>jobs = [example_job]\<rparr> ''name'' ''alpha'') =
     Inl (SlurmQueueReadError read_error_message) \<and>
   breakpoint quitting_env = Some BdbQuit \<and>
   fst (update quitting_env \<lparr>jobs = [example_job]\<rparr> ''name'' ''alpha'') = Inl BdbQuit"
proof -
  have h1: "os_getlogin truncated_env = Inr ''alice''"
    by (simp add: truncated_env_def example_env_def)
  have h2: "check_output truncated_env (squeue_command ''alice'') = Inr truncated_queue_info"
    by (simp add: truncated_env_def example_env_def)
  have q1: "os_getlogin quitting_env = Inr ''alice''"
    by (simp add: quitting_env_def truncated_env_def example_env_def)
  have q2: "check_output quitting_env (squeue_command ''alice'') = Inr truncated_queue_info"
    by (simp add: quitting_env_def truncated_env_def example_env_def)
  have h3: "''124 job2'' \<in> set (split_lines truncated_queue_info)"
    by (simp only: truncated_output_lines) simp
  have h4: "''124 job2'' \<noteq> []"
    by simp
  have h5: "length (split ''124 job2'') < 11"
    by (simp add: split_def isspace_def)
  have b1: "breakpoint truncated_env = None"
    by (simp add: truncated_env_def example_env_def)
  have b2: "breakpoint quitting_env = Some BdbQuit"
    by (simp add: quitting_env_def)
  from update_short_line_error [OF h1 h2 h3 h4 h5, of "\<lparr>jobs = [example_job]\<rparr>" "''name''" "''alpha''"]
    update_short_line_error [OF q1 q2 h3 h4 h5, of "\<lparr>jobs = [example_job]\<rparr>" "''name''" "''alpha''"]
    h1 h2 q1 q2 h3 h4 h5 b1 b2
  show ?thesis by simp
qed

text \<open>
  C2 as stated fails: with a debugger hook that gives control back, the error raised for
  the line "124 job2" carries the fixed message, in which the line does not occur.
\<close>

theorem short_line_error_counterexample:
  "length (split ''124 job2'') < 11 \<and>
   breakpoint truncated_env = None \<and>
   parse_line truncated_env ''124 job2'' = Inl (SlurmQueueReadError read_error_message) \<and>
   fst (update truncated_env \<lparr>jobs = []\<rparr> [] []) = Inl (SlurmQueueReadError read_error_message) \<and>
   \<not> sublist ''124 job2'' read_error_message"
proof -
  have "\<not> sublist ''124 job2'' read_error_message"
    by code_simp
  then show ?thesis
    by (simp add: short_line_rejected update_truncated_env)
      (simp add: split_def isspace_def truncated_env_def example_env_def)
qed

subsection \<open>Refresh\<close>

text \<open>
  C1, amended. When \<^verbatim>\<open>update\<close> raises, the stored jobs do not depend on the jobs stored
  before the call: they are empty when \<^verbatim>\<open>os.getlogin\<close> or the queue query fails, and
  otherwise they are the records of the lines read before the line that failed to parse (of
  all the lines, unfiltered, when it is the filter that raises).
\<close>

theorem update_failure_state:
  assumes "fst (update env self attribute regex) = Inl e"
  shows "jobs (fst (snd (update env self attribute regex))) =
     (case os_getlogin env of
        Inl _ \<Rightarrow> []
      | Inr login \<Rightarrow>
          (case check_output env (squeue_command login) of
             Inl _ \<Rightarrow> []
           | Inr queue_info \<Rightarrow> records_before_failure env (split_lines queue_info)))"
proof (cases "os_getlogin env")
  case (Inl e1)
  then show ?thesis by (simp add: update_def Let_def)
next
  case login: (Inr login)
  show ?thesis
  proof (cases "check_output env (squeue_command login)")
    case (Inl e2)
    with login show ?thesis by (simp add: update_def Let_def)
  next
    case (Inr queue_info)
    obtain res self' where p: "parse_lines env (split_lines queue_info) (self\<lparr>jobs := []\<rparr>) = (res, self')"
      by (cases "parse_lines env (split_lines queue_info) (self\<lparr>jobs := []\<rparr>)")
    from parse_lines_state [of env "split_lines queue_info" "self\<lparr>jobs := []\<rparr>"] p
    have s: "jobs self' = records_before_failure env (split_lines queue_info)" by simp
    show ?thesis
    proof (cases res)
      case (Inl e3)
      with p s login Inr show ?thesis
        by (simp add: update_query_ok [OF login Inr])
    next
      case ok: (Inr u)
      show ?thesis
      proof (cases "filter_jobs env (jobs self') attribute regex")
        case (Inl e4)
        with ok p s login Inr show ?thesis
          by (simp add: update_query_ok [OF login Inr])
      next
        case (Inr js)
        with ok p assms login \<open>check_output env (squeue_command login) = Inr queue_info\<close>
        show ?thesis
          by (simp add: update_query_ok [OF login \<open>check_output env (squeue_command login) = Inr queue_info\<close>])
      qed
    qed
  qed
qed

theorem update_failure_state_witness:
  "fst (update truncated_env \<lparr>jobs = []\<rparr> [] []) = Inl (SlurmQueueReadError read_error_message) \<and>
   jobs (fst (snd (update truncated_env \<lparr>jobs = []\<rparr> [] []))) = [example_job]"
proof -
  have h: "fst (update truncated_env \<lparr>jobs = []\<rparr> [] []) =
      Inl (SlurmQueueReadError read_error_message)"
    by (simp add: update_truncated_env)
  show ?thesis
    using h update_failure_state [OF h]
    by (simp add: truncated_env_def example_env_def truncated_output_lines
        example_line_parsed short_line_rejected)
qed

text \<open>
  C1 as stated fails: a failed query empties the stored jobs, and a line that fails to parse
  leaves the records of the earlier lines of the same call in the stored jobs.
\<close>

theorem update_failure_counterexample:
  "fst (update failing_env \<lparr>jobs = [example_job]\<rparr> [] []) = Inl CalledProcessError \<and>
   jobs (fst (snd (update failing_env \<lparr>jobs = [example_job]\<rparr> [] []))) = [] \<and>
   jobs \<lparr>jobs = [example_job]\<rparr> \<noteq> [] \<and>
   fst (update truncated_env \<lparr>jobs = []\<rparr> [] []) = Inl (SlurmQueueReadError read_error_message) \<and>
   jobs (fst (snd (update truncated_env \<lparr>jobs = []\<rparr> [] []))) = [example_job]"
  by (simp add: update_failing_env update_truncated_env)

subsection \<open>The filter\<close>

text \<open>
  C7. For an attribute that is one of the eleven field names and a pattern that is not empty,
  \<^verbatim>\<open>filter_jobs\<close> returns, in their order, exactly the jobs whose value of that field is
  not empty and in which \<^verbatim>\<open>re.search\<close> finds a match of the pattern. The pattern is a
  regular expression: \<open>search\<close> is what \<^verbatim>\<open>re.search\<close> computes for it. (For a string that
  is no regular expression a match is not defined, and \<^verbatim>\<open>re.search\<close> raises.)
\<close>

theorem filter_jobs_known_attribute:
  assumes "attribute \<in> set (map snd NAMES_TO_JOB_ATTRIBUTES)"
    and "regex \<noteq> []"
    and "re_search env regex = Some search"
  shows "filter_jobs env js attribute regex =
     Inr (filter (\<lambda>job. case field_value attribute job of
                          Some v \<Rightarrow> v \<noteq> [] \<and> search v
                        | None \<Rightarrow> False) js)"
proof -
  from assms(1) have "attribute \<noteq> []"
    by (auto simp: NAMES_TO_JOB_ATTRIBUTES_def)
  with assms(2) show ?thesis
    by (simp add: filter_jobs_def filter_loop_known [OF assms(1,3)])
qed

theorem filter_jobs_known_attribute_witness:
  "''name'' \<in> set (map snd NAMES_TO_JOB_ATTRIBUTES) \<and>
   ''alpha'' \<noteq> [] \<and>
   re_search example_env ''alpha'' = Some (sublist ''alpha'') \<and>
   filter_jobs example_env
     [example_job\<lparr>name := ''alpha''\<rparr>, example_job\<lparr>name := ''beta''\<rparr>,
      example_job\<lparr>name := ''alphabet''\<rparr>] ''name'' ''alpha'' =
     Inr [example_job\<lparr>name := ''alpha''\<rparr>, example_job\<lparr>name := ''alphabet''\<rparr>]"
proof -
  have h1: "''name'' \<in> set (map snd NAMES_TO_JOB_ATTRIBUTES)"
    by (simp add: NAMES_TO_JOB_ATTRIBUTES_def)
  have h2: "''alpha'' \<noteq> []"
    by simp
  have h3: "re_search example_env ''alpha'' = Some (sublist ''alpha'')"
    by (simp add: example_env_def literal_search_def)
  have s1: "sublist ''alpha'' ''alpha''" by code_simp
  have s2: "\<not> sublist ''alpha'' ''beta''" by code_simp
  have s3: "sublist ''alpha'' ''alphabet''" by code_simp
  from filter_jobs_known_attribute [OF h1 h2 h3] h1 h2 h3 s1 s2 s3
  show ?thesis
    by (simp add: field_value_def)
qed

text \<open>
  C8. With an empty attribute or an empty pattern \<^verbatim>\<open>filter_jobs\<close> returns the jobs it is
  given, unchanged.
\<close>

theorem filter_jobs_identity:
  assumes "attribute = [] \<or> regex = []"
  shows "filter_jobs env js attribute regex = Inr js"
  using assms by (simp add: filter_jobs_def)

theorem filter_jobs_identity_witness:
  "([] = ([]::string) \<or> ''anything'' = []) \<and>
   filter_jobs example_env [example_job, slurm_banner_fake_job] [] ''anything'' =
     Inr [example_job, slurm_banner_fake_job] \<and>
   (''state'' = [] \<or> [] = ([]::string)) \<and>
   filter_jobs example_env [example_job, slurm_banner_fake_job] ''state'' [] =
     Inr [example_job, slurm_banner_fake_job]"
  using filter_jobs_identity [of "[]" "''anything''" example_env "[example_job, slurm_banner_fake_job]"]
    filter_jobs_identity [of "''state''" "[]" example_env "[example_job, slurm_banner_fake_job]"]
  by simp

text \<open>
  C9, amended. For a list of jobs that is not empty, a pattern that is not empty and an
  attribute that is not empty and is neither one of the eleven field names nor another
  attribute of the object, \<^verbatim>\<open>filter_jobs\<close> raises \<^verbatim>\<open>AttributeError\<close>.
\<close>

theorem filter_jobs_unknown_attribute:
  assumes "js \<noteq> []"
    and "attribute \<noteq> []"
    and "regex \<noteq> []"
    and "attribute \<notin> set (map snd NAMES_TO_JOB_ATTRIBUTES)"
    and "object_attr env attribute = None"
  shows "filter_jobs env js attribute regex = Inl AttributeError"
proof -
  from assms(1) obtain job rest where js: "js = job # rest"
    by (cases js) auto
  from assms(4) have "field_value attribute job = None"
    using field_value_known [of attribute job] by simp
  with js assms(2,3,5) show ?thesis
    by (simp add: filter_jobs_def getattr_def)
qed

theorem filter_jobs_unknown_attribute_witness:
  "[example_job] \<noteq> [] \<and> ''bogus'' \<noteq> [] \<and> ''alpha'' \<noteq> [] \<and>
   ''bogus'' \<notin> set (map snd NAMES_TO_JOB_ATTRIBUTES) \<and>
   object_attr example_env ''bogus'' = None \<and>
   filter_jobs example_env [example_job] ''bogus'' ''alpha'' = Inl AttributeError"
proof -
  have h4: "''bogus'' \<notin> set (map snd NAMES_TO_JOB_ATTRIBUTES)"
    by (simp add: NAMES_TO_JOB_ATTRIBUTES_def)
  have h5: "object_attr example_env ''bogus'' = None"
    by (simp add: example_env_def)
  from filter_jobs_unknown_attribute [of "[example_job]" "''bogus''" "''alpha''" example_env] h4 h5
  show ?thesis by simp
qed

text \<open>
  C9 as stated fails: on the empty list of jobs the loop body is never run, and the filter
  returns the empty list for any attribute.
\<close>

theorem filter_jobs_unknown_attribute_counterexample:
  "''bogus'' \<noteq> [] \<and> ''alpha'' \<noteq> [] \<and>
   ''bogus'' \<notin> set (map snd NAMES_TO_JOB_ATTRIBUTES) \<and>
   filter_jobs example_env [] ''bogus'' ''alpha'' = Inr []"
  by (simp add: NAMES_TO_JOB_ATTRIBUTES_def filter_jobs_def)

subsection \<open>Hold, release and kill\<close>

text \<open>
  C3, amended. Each of \<^verbatim>\<open>kill_job\<close>, \<^verbatim>\<open>hold_job\<close> and \<^verbatim>\<open>release_job\<close> starts
  exactly one external command when \<^verbatim>\<open>job_id.isdigit()\<close> holds, and none otherwise. Every
  positive-integer string passes the test, and the job_id "Job ID" of the banner row does
  not.
\<close>

theorem mutation_calls:
  "snd (kill_job env job) = (if isdigit (job_id job) then [[''scancel'', job_id job]] else []) \<and>
   snd (hold_job env job) =
     (if isdigit (job_id job) then [[''scontrol'', ''hold'', job_id job]] else []) \<and>
   snd (release_job env job) =
     (if isdigit (job_id job) then [[''scontrol'', ''release'', job_id job]] else []) \<and>
   (positive_integer_string (job_id job) \<longrightarrow> isdigit (job_id job)) \<and>
   \<not> isdigit (job_id slurm_banner_fake_job)"
  using positive_integer_string_isdigit [of "job_id job"] banner_not_isdigit
  by (simp add: kill_job_def hold_job_def release_job_def)

theorem mutation_calls_witness:
  "positive_integer_string (job_id example_job) \<and>
   isdigit (job_id example_job) \<and>
   snd (kill_job example_env example_job) = [[''scancel'', ''123'']] \<and>
   snd (hold_job example_env example_job) = [[''scontrol'', ''hold'', ''123'']] \<and>
   snd (release_job example_env example_job) = [[''scontrol'', ''release'', ''123'']] \<and>
   snd (kill_job example_env slurm_banner_fake_job) = [] \<and>
   snd (hold_job example_env slurm_banner_fake_job) = [] \<and>
   snd (release_job example_env slurm_banner_fake_job) = []"
proof -
  have h: "positive_integer_string (job_id example_job)"
    by (simp add: positive_integer_string_def example_job_def)
  have id: "job_id example_job = ''123''"
    by (simp add: example_job_def)
  from mutation_calls [of example_env example_job]
    mutation_calls [of example_env slurm_banner_fake_job] h id
  show ?thesis by simp
qed

text \<open>
  C3 as stated fails: "0" is not a positive-integer string, and \<^verbatim>\<open>"0".isdigit()\<close> holds,
  so each of the three operations starts its command.
\<close>

theorem mutation_calls_counterexample:
  "\<not> positive_integer_string (job_id (example_job\<lparr>job_id := ''0''\<rparr>)) \<and>
   snd (kill_job example_env (example_job\<lparr>job_id := ''0''\<rparr>)) = [[''scancel'', ''0'']] \<and>
   snd (hold_job example_env (example_job\<lparr>job_id := ''0''\<rparr>)) = [[''scontrol'', ''hold'', ''0'']] \<and>
   snd (release_job example_env (example_job\<lparr>job_id := ''0''\<rparr>)) =
     [[''scontrol'', ''release'', ''0'']]"
  by (simp add: positive_integer_string_def kill_job_def hold_job_def release_job_def
      isdigit_def isdigit_char_def)

subsection \<open>Construction\<close>

text \<open>
  C10, amended. Construction runs \<^verbatim>\<open>update\<close> once with the empty filter: it starts the queue
  query exactly once when \<^verbatim>\<open>os.getlogin\<close> succeeds, and starts no command when
  \<^verbatim>\<open>os.getlogin\<close> raises. When \<^verbatim>\<open>os.getlogin\<close> and the query succeed and every line of the
  output that is not empty has at least eleven tokens, construction succeeds, the stored
  jobs are the records of all the lines of the output, unfiltered, and the filter the
  application stores is the attribute "name" with the empty pattern.
\<close>

theorem SquidApp_init_queries_once:
  "snd (SquidApp_init env) =
     (case os_getlogin env of
        Inl e \<Rightarrow> []
      | Inr login \<Rightarrow> [squeue_command login]) \<and>
   (\<forall>login queue_info.
      os_getlogin env = Inr login \<and>
      check_output env (squeue_command login) = Inr queue_info \<and>
      (\<forall>line\<in>set (split_lines queue_info). line \<noteq> [] \<longrightarrow> 11 \<le> length (split line)) \<longrightarrow>
      fst (SquidApp_init env) =
        Inr \<lparr>slurm_queue = \<lparr>jobs = records_before_failure env (split_lines queue_info)\<rparr>,
             job_filter_attribute = ''name'', job_filter_regex = []\<rparr>)"
proof (intro conjI allI impI)
  show "snd (SquidApp_init env) =
     (case os_getlogin env of
        Inl e \<Rightarrow> []
      | Inr login \<Rightarrow> [squeue_command login])"
    by (simp add: SquidApp_init_def SlurmQueue_init_def update_def Let_def
        split: sum.splits prod.splits)
next
  fix login queue_info
  assume a: "os_getlogin env = Inr login \<and>
      check_output env (squeue_command login) = Inr queue_info \<and>
      (\<forall>line\<in>set (split_lines queue_info). line \<noteq> [] \<longrightarrow> 11 \<le> length (split line))"
  then have a1: "os_getlogin env = Inr login"
    and a2: "check_output env (squeue_command login) = Inr queue_info"
    and a3: "\<forall>line\<in>set (split_lines queue_info). line \<noteq> [] \<longrightarrow> 11 \<le> length (split line)"
    by simp_all
  obtain res self' where p: "parse_lines env (split_lines queue_info) (\<lparr>jobs = []\<rparr>\<lparr>jobs := []\<rparr>) = (res, self')"
    by (cases "parse_lines env (split_lines queue_info) (\<lparr>jobs = []\<rparr>\<lparr>jobs := []\<rparr>)")
  from parse_lines_all_long [OF a3, of env "\<lparr>jobs = []\<rparr>\<lparr>jobs := []\<rparr>"] p
  have res: "res = Inr ()" by simp
  from parse_lines_state [of env "split_lines queue_info" "\<lparr>jobs = []\<rparr>\<lparr>jobs := []\<rparr>"] p
  have "self' = \<lparr>jobs = records_before_failure env (split_lines queue_info)\<rparr>" by simp
  with p res show "fst (SquidApp_init env) =
        Inr \<lparr>slurm_queue = \<lparr>jobs = records_before_failure env (split_lines queue_info)\<rparr>,
             job_filter_attribute = ''name'', job_filter_regex = []\<rparr>"
    by (simp add: SquidApp_init_def SlurmQueue_init_def update_query_ok [OF a1 a2]
        filter_jobs_def)
qed

theorem SquidApp_init_queries_once_witness:
  "os_getlogin example_env = Inr ''alice'' \<and>
   check_output example_env (squeue_command ''alice'') = Inr example_queue_info \<and>
   split_lines example_queue_info =
     [''123 job1 part 1:00 01-01 01-02 01-03 PD 123 0 node1'', []] \<and>
   11 \<le> length (split ''123 job1 part 1:00 01-01 01-02 01-03 PD 123 0 node1'') \<and>
   SquidApp_init example_env =
     (Inr \<lparr>slurm_queue = \<lparr>jobs = [example_job]\<rparr>, job_filter_attribute = ''name'',
           job_filter_regex = []\<rparr>,
      [squeue_command ''alice'']) \<and>
   os_getlogin (example_env\<lparr>os_getlogin := Inl OSError\<rparr>) = Inl OSError \<and>
   snd (SquidApp_init (example_env\<lparr>os_getlogin := Inl OSError\<rparr>)) = []"
proof -
  have h1: "os_getlogin example_env = Inr ''alice''"
    by (simp add: example_env_def)
  have h2: "check_output example_env (squeue_command ''alice'') = Inr example_queue_info"
    by (simp add: example_env_def)
  have len: "11 \<le> length (split ''123 job1 part 1:00 01-01 01-02 01-03 PD 123 0 node1'')"
    by (simp add: split_def isspace_def)
  have h3: "\<forall>line\<in>set (split_lines example_queue_info).
      line \<noteq> [] \<longrightarrow> 11 \<le> length (split line)"
    using len by (simp only: example_output_lines) simp
  have r: "records_before_failure example_env (split_lines example_queue_info) = [example_job]"
    by (simp only: example_output_lines) (simp add: example_line_parsed)
  have fst_ok: "fst (SquidApp_init example_env) =
     Inr \<lparr>slurm_queue = \<lparr>jobs = [example_job]\<rparr>, job_filter_attribute = ''name'',
          job_filter_regex = []\<rparr>"
    using SquidApp_init_queries_once [of example_env] h1 h2 h3 r by simp
  have snd_ok: "snd (SquidApp_init example_env) = [squeue_command ''alice'']"
    using SquidApp_init_queries_once [of example_env] h1 by simp
  have snd_none: "snd (SquidApp_init (example_env\<lparr>os_getlogin := Inl OSError\<rparr>)) = []"
    using SquidApp_init_queries_once [of "example_env\<lparr>os_getlogin := Inl OSError\<rparr>"] by simp
  from fst_ok snd_ok have "SquidApp_init example_env =
     (Inr \<lparr>slurm_queue = \<lparr>jobs = [example_job]\<rparr>, job_filter_attribute = ''name'',
           job_filter_regex = []\<rparr>,
      [squeue_command ''alice''])"
    by (simp add: prod_eq_iff)
  with h1 h2 len snd_none example_output_lines show ?thesis by simp
qed

text \<open>
  C10 as stated fails: construction starts the queue query, and the stored jobs are the jobs
  of its output.
\<close>

theorem SquidApp_init_counterexample:
  "SquidApp_init example_env =
     (Inr \<lparr>slurm_queue = \<lparr>jobs = [example_job]\<rparr>, job_filter_attribute = ''name'',
           job_filter_regex = []\<rparr>,
      [squeue_command ''alice''])"
  by (simp add: SquidApp_init_def SlurmQueue_init_def update_def example_env_def
      example_output_lines example_line_parsed filter_jobs_def)

end
